theory Spec2Isabelle
  imports Complex_Main
begin

section \<open>JavaScript numbers\<close>

text \<open>
  A JavaScript number is an IEEE 754 double. The model keeps the three special values
  and represents a finite double by the real number it equals. The sign of zero is not
  represented (a zero divisor counts as \<open>+0\<close>).
\<close>

datatype jsnum = Fin real | PInf | NInf | NaN

subsection \<open>Rounding to a double\<close>

text \<open>\<open>pow2 e\<close> is \<open>2\<close> to the power \<open>e\<close>.\<close>

definition pow2 :: "int \<Rightarrow> real" where
  "pow2 e = (if 0 \<le> e then 2 ^ nat e else 1 / 2 ^ nat (- e))"

text \<open>
  The binary exponent of a positive number \<open>a\<close>, the \<open>e\<close> with
  \<open>2^e \<le> a < 2^(e+1)\<close>, found by doubling or halving at most \<open>fuel\<close> times.
\<close>

function bexp :: "nat \<Rightarrow> real \<Rightarrow> int" where
  "bexp fuel a =
     (if fuel = 0 then 0
      else if a < 1 then bexp (fuel - 1) (a * 2) - 1
      else if 2 \<le> a then bexp (fuel - 1) (a / 2) + 1
      else 0)"
  by pat_completeness auto
termination
  by (relation "measure fst") auto

declare bexp.simps [simp del]

text \<open>The nearest integer, the even one of two that are equally near.\<close>

definition round_half_even :: "real \<Rightarrow> int" where
  "round_half_even x =
     (if x - of_int \<lfloor>x\<rfloor> < 1 / 2 then \<lfloor>x\<rfloor>
      else if 1 / 2 < x - of_int \<lfloor>x\<rfloor> then \<lfloor>x\<rfloor> + 1
      else if even \<lfloor>x\<rfloor> then \<lfloor>x\<rfloor> else \<lfloor>x\<rfloor> + 1)"

text \<open>
  \<open>to_double x\<close> is the double that IEEE 754 assigns to the real number \<open>x\<close> in the
  default rounding mode: \<open>x\<close> is rounded to the nearest multiple of the spacing of the
  doubles around it, ties to the even multiple. With 53 significant bits that spacing
  is \<open>2^(e - 52)\<close> for the binary exponent \<open>e\<close> of \<open>x\<close>, and \<open>2^(-1074)\<close> below
  \<open>2^(-1022)\<close>; a result of magnitude \<open>2^1024\<close> or more is an infinity. The fuel of
  \<open>bexp\<close> covers every exponent from \<open>-1022\<close> to \<open>1024\<close>.
\<close>

definition overflow_check :: "real \<Rightarrow> jsnum" where
  "overflow_check y =
     (if pow2 1024 \<le> \<bar>y\<bar> then (if 0 < y then PInf else NInf) else Fin y)"

definition quantize :: "real \<Rightarrow> real \<Rightarrow> jsnum" where
  "quantize q x = overflow_check (of_int (round_half_even (x / q)) * q)"

definition to_double :: "real \<Rightarrow> jsnum" where
  "to_double x =
     (if x = 0 then Fin 0
      else quantize (pow2 (max (bexp 2200 \<bar>x\<bar>) (- 1022) - 52)) x)"

subsection \<open>Arithmetic, comparison and the functions of \<open>Math\<close>\<close>

text \<open>
  \<open>-\<close>, \<open>*\<close> and \<open>/\<close> on finite doubles give the exact result rounded once, as IEEE 754
  prescribes; on the special values they follow ECMAScript (\<open>NaN\<close> propagates, a
  division by zero gives an infinity or \<open>NaN\<close>).
\<close>

fun js_neg :: "jsnum \<Rightarrow> jsnum" where
  "js_neg (Fin a) = Fin (- a)"
| "js_neg PInf = NInf"
| "js_neg NInf = PInf"
| "js_neg NaN = NaN"

fun js_sub :: "jsnum \<Rightarrow> jsnum \<Rightarrow> jsnum" where
  "js_sub (Fin a) (Fin b) = to_double (a - b)"
| "js_sub (Fin a) PInf = NInf"
| "js_sub (Fin a) NInf = PInf"
| "js_sub PInf (Fin b) = PInf"
| "js_sub PInf NInf = PInf"
| "js_sub NInf (Fin b) = NInf"
| "js_sub NInf PInf = NInf"
| "js_sub _ _ = NaN"

fun js_mul :: "jsnum \<Rightarrow> jsnum \<Rightarrow> jsnum" where
  "js_mul (Fin a) (Fin b) = to_double (a * b)"
| "js_mul PInf (Fin b) = (if b = 0 then NaN else if 0 < b then PInf else NInf)"
| "js_mul NInf (Fin b) = (if b = 0 then NaN else if 0 < b then NInf else PInf)"
| "js_mul (Fin a) PInf = (if a = 0 then NaN else if 0 < a then PInf else NInf)"
| "js_mul (Fin a) NInf = (if a = 0 then NaN else if 0 < a then NInf else PInf)"
| "js_mul PInf PInf = PInf"
| "js_mul NInf NInf = PInf"
| "js_mul PInf NInf = NInf"
| "js_mul NInf PInf = NInf"
| "js_mul _ _ = NaN"

fun js_div :: "jsnum \<Rightarrow> jsnum \<Rightarrow> jsnum" where
  "js_div (Fin a) (Fin b) =
     (if b = 0 then (if a = 0 then NaN else if 0 < a then PInf else NInf)
      else to_double (a / b))"
| "js_div (Fin a) PInf = Fin 0"
| "js_div (Fin a) NInf = Fin 0"
| "js_div PInf (Fin b) = (if b < 0 then NInf else PInf)"
| "js_div NInf (Fin b) = (if b < 0 then PInf else NInf)"
| "js_div _ _ = NaN"

text \<open>
  \<open>Math.abs\<close>, \<open>Math.log\<close>, \<open>Math.ceil\<close>, \<open>Math.min\<close> of two arguments. ECMAScript leaves
  the precision of \<open>Math.log\<close> to the implementation and fixes \<open>Math.log(1)\<close> as
  \<open>0\<close>; the model takes the logarithm rounded to a double, which agrees on \<open>1\<close>.
\<close>

fun js_abs :: "jsnum \<Rightarrow> jsnum" where
  "js_abs (Fin a) = Fin \<bar>a\<bar>"
| "js_abs PInf = PInf"
| "js_abs NInf = PInf"
| "js_abs NaN = NaN"

fun js_log :: "jsnum \<Rightarrow> jsnum" where
  "js_log (Fin a) = (if a < 0 then NaN else if a = 0 then NInf else to_double (ln a))"
| "js_log PInf = PInf"
| "js_log NInf = NaN"
| "js_log NaN = NaN"

fun js_ceil :: "jsnum \<Rightarrow> jsnum" where
  "js_ceil (Fin a) = Fin (of_int \<lceil>a\<rceil>)"
| "js_ceil PInf = PInf"
| "js_ceil NInf = NInf"
| "js_ceil NaN = NaN"

text \<open>The relational operators: every comparison with \<open>NaN\<close> is false.\<close>

fun js_less :: "jsnum \<Rightarrow> jsnum \<Rightarrow> bool" where
  "js_less (Fin a) (Fin b) = (a < b)"
| "js_less (Fin a) PInf = True"
| "js_less NInf (Fin b) = True"
| "js_less NInf PInf = True"
| "js_less _ _ = False"

definition js_gt :: "jsnum \<Rightarrow> jsnum \<Rightarrow> bool" where
  "js_gt a b = js_less b a"

definition js_ge :: "jsnum \<Rightarrow> jsnum \<Rightarrow> bool" where
  "js_ge a b = (a \<noteq> NaN \<and> b \<noteq> NaN \<and> \<not> js_less a b)"

definition js_min :: "jsnum \<Rightarrow> jsnum \<Rightarrow> jsnum" where
  "js_min a b = (if a = NaN \<or> b = NaN then NaN else if js_less b a then b else a)"

subsection \<open>\<open>Number.prototype.toFixed\<close>\<close>

text \<open>The decimal digits of a natural number, most significant first.\<close>

function digits :: "nat \<Rightarrow> string" where
  "digits n =
     (if n < 10 then [''0123456789'' ! n]
      else digits (n div 10) @ [''0123456789'' ! (n mod 10)])"
  by pat_completeness auto
termination
  by (relation "measure id") auto

declare digits.simps [simp del]

text \<open>
  \<open>x.toFixed(f)\<close> after ECMAScript, which works on the exact value of the double: a
  non-finite \<open>x\<close> prints as its name; from
  \<open>10^21\<close> on the result is the general number-to-string conversion, which depends on
  the double's bits and is therefore taken as the parameter \<open>numberToString\<close>; otherwise
  the sign is split off, \<open>n\<close> is the integer with \<open>n / 10^f\<close> nearest to \<open>|x|\<close> (the
  larger one on a tie), and its digits are printed with \<open>f\<close> places after the point,
  padded with zeros on the left to at least \<open>f + 1\<close> digits.
\<close>

definition toFixed :: "(real \<Rightarrow> string) \<Rightarrow> nat \<Rightarrow> jsnum \<Rightarrow> string" where
  "toFixed numberToString f x =
     (case x of
        NaN \<Rightarrow> ''NaN''
      | PInf \<Rightarrow> ''Infinity''
      | NInf \<Rightarrow> ''-Infinity''
      | Fin r \<Rightarrow>
          if 10 ^ 21 \<le> \<bar>r\<bar> then numberToString r
          else
            let s = (if r < 0 then ''-'' else '''');
                n = nat \<lfloor>\<bar>r\<bar> * 10 ^ f + 1 / 2\<rfloor>;
                m = digits n;
                m = (if f = 0 then m
                     else let z = replicate (f + 1 - length m) (CHR ''0'') @ m;
                              k = length z
                          in take (k - f) z @ ''.'' @ drop (k - f) z)
            in s @ m)"

subsection \<open>\<open>parseFloat\<close>\<close>

text \<open>
  \<open>parseFloat\<close> on an ASCII string: leading white space is skipped, then the longest
  prefix that is a decimal literal (sign, \<open>Infinity\<close> or digits with an optional
  fraction and exponent) is read; with no such prefix the result is \<open>NaN\<close>. The value is
  the decimal value of the literal rounded to a double.
\<close>

definition is_ws :: "char \<Rightarrow> bool" where
  "is_ws ch = (ch \<in> set [CHR 0x09, CHR 0x0A, CHR 0x0B, CHR 0x0C, CHR 0x0D, CHR 0x20])"

definition is_digit :: "char \<Rightarrow> bool" where
  "is_digit ch = (ch \<in> set ''0123456789'')"

definition digit_val :: "char \<Rightarrow> nat" where
  "digit_val ch = of_char ch - 48"

definition digits_val :: "string \<Rightarrow> nat" where
  "digits_val ds = foldl (\<lambda>a ch. 10 * a + digit_val ch) 0 ds"

text \<open>The exponent part at the front of a string; \<open>0\<close> when there is none.\<close>

definition parse_exponent :: "string \<Rightarrow> int" where
  "parse_exponent str =
     (case str of
        [] \<Rightarrow> 0
      | ch # r \<Rightarrow>
          if ch = CHR ''e'' \<or> ch = CHR ''E'' then
            (case r of
               [] \<Rightarrow> 0
             | sg # r' \<Rightarrow>
                 if sg = CHR ''+'' then int (digits_val (takeWhile is_digit r'))
                 else if sg = CHR ''-'' then - int (digits_val (takeWhile is_digit r'))
                 else int (digits_val (takeWhile is_digit r)))
          else 0)"

definition scale10 :: "real \<Rightarrow> int \<Rightarrow> real" where
  "scale10 m e = (if 0 \<le> e then m * 10 ^ nat e else m / 10 ^ nat (- e))"

definition parse_unsigned :: "string \<Rightarrow> jsnum" where
  "parse_unsigned str =
     (if take 8 str = ''Infinity'' then PInf
      else
        let ip = takeWhile is_digit str;
            r1 = dropWhile is_digit str;
            has_dot = (r1 \<noteq> [] \<and> hd r1 = CHR ''.'');
            fp = (if has_dot then takeWhile is_digit (tl r1) else []);
            r2 = (if has_dot then dropWhile is_digit (tl r1) else r1)
        in if ip = [] \<and> fp = [] then NaN
           else to_double
                  (scale10 (real (digits_val ip) + real (digits_val fp) / 10 ^ length fp)
                     (parse_exponent r2)))"

definition parseFloat :: "string \<Rightarrow> jsnum" where
  "parseFloat str =
     (case dropWhile is_ws str of
        [] \<Rightarrow> NaN
      | ch # r \<Rightarrow>
          if ch = CHR ''-'' then js_neg (parse_unsigned r)
          else if ch = CHR ''+'' then parse_unsigned r
          else parse_unsigned (ch # r))"

section \<open>Ticker Normalizer (\<open>processBinanceData\<close>)\<close>

text \<open>
  An element of the upstream array is \<open>null\<close> or an object whose fields \<open>s\<close>, \<open>c\<close>,
  \<open>P\<close>, \<open>v\<close> are strings or absent (\<open>None\<close>: reading the property gives \<open>undefined\<close>).
  A deserialized upstream message is an array of such elements or anything else; of a
  non-array the code only ever asks \<open>Array.isArray\<close>.
\<close>

datatype raw_item =
    RNull
  | RObj (item_s: "string option") (item_c: "string option")
         (item_P: "string option") (item_v: "string option")

datatype upstream_message = ArrayMsg "raw_item list" | NonArrayMsg

record ticker =
  symbol :: string
  price :: jsnum
  priceChange :: jsnum
  volume :: jsnum
  volumeScore :: jsnum

record snapshot =
  cryptos :: "ticker list"
  timestamp :: int

datatype js_error = TypeError

definition tickers :: "string list" where
  "tickers = [''BTCUSDT'', ''ETHUSDT'', ''SOLUSDT'', ''ADAUSDT'']"

text \<open>\<open>str.replace(pat, rep)\<close> with a string pattern: the first occurrence only.\<close>

fun replace_first :: "string \<Rightarrow> string \<Rightarrow> string \<Rightarrow> string" where
  "replace_first pat rep [] = (if pat = [] then rep else [])"
| "replace_first pat rep (ch # r) =
     (if take (length pat) (ch # r) = pat then rep @ drop (length pat) (ch # r)
      else ch # replace_first pat rep r)"

text \<open>\<open>parseFloat(item.c)\<close> of a possibly absent field: \<open>parseFloat(undefined)\<close> is \<open>NaN\<close>.\<close>

definition parseFloat_field :: "string option \<Rightarrow> jsnum" where
  "parseFloat_field fld = (case fld of None \<Rightarrow> NaN | Some str \<Rightarrow> parseFloat str)"

text \<open>\<open>tickers.includes(item.s)\<close>; reading \<open>.s\<close> of \<open>null\<close> throws, see below.\<close>

definition allowed :: "raw_item \<Rightarrow> bool" where
  "allowed item = (case item of RNull \<Rightarrow> False | RObj s c P v \<Rightarrow>
     (case s of None \<Rightarrow> False | Some str \<Rightarrow> str \<in> set tickers))"

text \<open>\<open>Math.min(10, Math.ceil(Math.log(parseFloat(item.v)) / 10))\<close>\<close>

definition volumeScore_of :: "jsnum \<Rightarrow> jsnum" where
  "volumeScore_of vol = js_min (Fin 10) (js_ceil (js_div (js_log vol) (Fin 10)))"

definition to_ticker :: "raw_item \<Rightarrow> ticker" where
  "to_ticker item =
     \<lparr> symbol = replace_first ''USDT'' '''' (case item_s item of None \<Rightarrow> '''' | Some str \<Rightarrow> str),
       price = parseFloat_field (item_c item),
       priceChange = parseFloat_field (item_P item),
       volume = parseFloat_field (item_v item),
       volumeScore = volumeScore_of (parseFloat_field (item_v item)) \<rparr>"

text \<open>
  \<open>processBinanceData(data)\<close>, with the value of \<open>Date.now()\<close> as \<open>now\<close>. The callback of
  \<open>data.filter\<close> reads \<open>item.s\<close> of every element, which throws a \<open>TypeError\<close> on
  \<open>null\<close>. \<open>to_ticker\<close> is applied to allowed items only, whose \<open>s\<close> is present.
\<close>

definition processBinanceData :: "int \<Rightarrow> raw_item list \<Rightarrow> js_error + snapshot" where
  "processBinanceData now data =
     (if RNull \<in> set data then Inl TypeError
      else Inr \<lparr> cryptos = map to_ticker (filter allowed data), timestamp = now \<rparr>)"

section \<open>Connection Manager (\<open>WebSocketService\<close>)\<close>

text \<open>The strings sent on \<open>connectionStatus$\<close>.\<close>

datatype connection_state = Connecting | Connected | Reconnecting | Disconnected | Error

text \<open>
  What the service reacts to: the callbacks and notifications of the socket subject
  (\<open>openObserver\<close>, \<open>closeObserver\<close>, an error, a completion, a message), the timer of
  \<open>delay(1000)\<close> running out, a tick of \<open>interval(30000)\<close> together with the value
  \<open>socket$.closed\<close> has at that moment, and the calls of \<open>reconnect()\<close> and \<open>close()\<close>.
\<close>

datatype ws_event =
    SocketOpened
  | SocketClosed
  | SocketError
  | SocketCompleted
  | SocketMessage upstream_message
  | DelayElapsed
  | HeartbeatTick bool
  | ReconnectCalled
  | CloseCalled

text \<open>
  What the service does: a value on \<open>connectionStatus$\<close>, a Snapshot or the completion
  delivered by \<open>share()\<close> to every subscriber of \<open>data$\<close>, starting the timer of
  \<open>delay\<close>, \<open>retryWhen\<close> subscribing to the socket again, the call
  \<open>socket$.complete()\<close>, and an exception that leaves the service's code. The socket
  subject belongs to the library: what it does when it is completed comes back as
  events.
\<close>

datatype ws_effect =
    StatusNext connection_state
  | DataNext snapshot
  | DataComplete
  | StartDelay nat
  | Resubscribe
  | SocketComplete
  | Thrown js_error

text \<open>
  The state of the two pipelines once \<open>data$\<close> has a subscriber: \<open>retryIndex\<close> is the
  index \<open>i\<close> that \<open>map((error, i) => ...)\<close> passes to its next call, \<open>retryPending\<close>
  says that an error is waiting in \<open>delay(1000)\<close> (the socket is not subscribed
  meanwhile), \<open>dataDone\<close> that \<open>data$\<close> has completed, \<open>heartbeatDone\<close> that
  \<open>heartbeat$\<close> has.
\<close>

record ws_state =
  retryIndex :: nat
  retryPending :: bool
  dataDone :: bool
  heartbeatDone :: bool

definition ws_init :: ws_state where
  "ws_init = \<lparr> retryIndex = 0, retryPending = False, dataDone = False, heartbeatDone = False \<rparr>"

text \<open>
  \<open>catchError\<close> of \<open>data$\<close>: publish \<open>"error"\<close> and continue with
  \<open>of({ cryptos: [], timestamp: Date.now() })\<close>, which emits that one value and
  completes.
\<close>

definition catch_error :: "int \<Rightarrow> ws_state \<Rightarrow> ws_state \<times> ws_effect list" where
  "catch_error now st =
     (st\<lparr>dataDone := True\<rparr>,
      [StatusNext Error, DataNext \<lparr> cryptos = [], timestamp = now \<rparr>, DataComplete])"

text \<open>
  \<open>reconnect()\<close>: after \<open>this.socket$.complete()\<close> the method evaluates
  \<open>this.socket$.connect()\<close>. The subject made by \<open>webSocket(...)\<close> has no method
  \<open>connect\<close>, so this throws a \<open>TypeError\<close>, and the line that publishes
  \<open>"connecting"\<close> is not reached.
\<close>

definition reconnect :: "ws_effect list" where
  "reconnect = [SocketComplete, Thrown TypeError]"

text \<open>
  One event, handled at time \<open>now\<close>.
  \<^item> An error of the socket goes to the notifier of \<open>retryWhen\<close>, where \<open>delay(1000)\<close>
    holds it back.
  \<^item> When the delay is over, \<open>map((error, i) => ...)\<close> runs: with \<open>i >= 5\<close> it throws,
    which ends \<open>retryWhen\<close> with that error and reaches \<open>catchError\<close>; otherwise it
    publishes \<open>"reconnecting"\<close> and \<open>retryWhen\<close> subscribes to the socket again. \<open>map\<close>
    counts its calls, whatever their outcome.
  \<^item> A message passes \<open>filter(Array.isArray)\<close>, \<open>takeUntil\<close> and
    \<open>map(processBinanceData)\<close>, whose exception reaches \<open>catchError\<close>.
  \<^item> A completion of the socket completes \<open>data$\<close>.
  \<^item> A heartbeat tick that finds the socket open passes \<open>of(null)\<close> on, to a
    subscriber that does nothing. A tick that finds it closed makes \<open>switchMap\<close> fail
    with \<open>throwError\<close>, which ends the interval; the handler of \<open>catchError\<close> calls
    \<open>reconnect()\<close>, whose exception ends \<open>heartbeat$\<close> (had it returned, \<open>of(null)\<close>
    would have completed it).
  \<^item> \<open>close()\<close> fires \<open>closeSubject\<close>, on which both \<open>takeUntil\<close>s complete their
    pipelines, and completes the socket.
\<close>

fun ws_step :: "int \<Rightarrow> ws_state \<Rightarrow> ws_event \<Rightarrow> ws_state \<times> ws_effect list" where
  "ws_step now st SocketOpened = (st, [StatusNext Connected])"
| "ws_step now st SocketClosed = (st, [StatusNext Disconnected])"
| "ws_step now st SocketError =
     (if dataDone st \<or> retryPending st then (st, [])
      else (st\<lparr>retryPending := True\<rparr>, [StartDelay 1000]))"
| "ws_step now st DelayElapsed =
     (if dataDone st \<or> \<not> retryPending st then (st, [])
      else if 5 \<le> retryIndex st
        then catch_error now (st\<lparr>retryPending := False, retryIndex := retryIndex st + 1\<rparr>)
        else (st\<lparr>retryPending := False, retryIndex := retryIndex st + 1\<rparr>,
              [StatusNext Reconnecting, Resubscribe]))"
| "ws_step now st (SocketMessage msg) =
     (if dataDone st \<or> retryPending st then (st, [])
      else case msg of
          NonArrayMsg \<Rightarrow> (st, [])
        | ArrayMsg data \<Rightarrow>
            (case processBinanceData now data of
               Inr snap \<Rightarrow> (st, [DataNext snap])
             | Inl err \<Rightarrow> catch_error now st))"
| "ws_step now st SocketCompleted =
     (if dataDone st \<or> retryPending st then (st, [])
      else (st\<lparr>dataDone := True\<rparr>, [DataComplete]))"
| "ws_step now st (HeartbeatTick socket_closed) =
     (if heartbeatDone st then (st, [])
      else if socket_closed then (st\<lparr>heartbeatDone := True\<rparr>, reconnect)
      else (st, []))"
| "ws_step now st ReconnectCalled = (st, reconnect)"
| "ws_step now st CloseCalled =
     (st\<lparr>dataDone := True, heartbeatDone := True\<rparr>,
      (if dataDone st then [] else [DataComplete]) @ [SocketComplete])"

text \<open>A run: the events with the time at which each is handled, effects in order.\<close>

fun ws_run :: "ws_state \<Rightarrow> (int \<times> ws_event) list \<Rightarrow> ws_state \<times> ws_effect list" where
  "ws_run st [] = (st, [])"
| "ws_run st ((now, ev) # evs) =
     (let (st1, out1) = ws_step now st ev;
          (st2, out2) = ws_run st1 evs
      in (st2, out1 @ out2))"

text \<open>
  The retry policy as the specification words it, for comparison with \<open>ws_step\<close>: a
  counter of consecutive failures, set back to zero by a successful (re)connection;
  the policy gives up once the counter has reached five. \<open>spec_retry_terminal n evs\<close>
  says whether it has given up after the events \<open>evs\<close>, starting with the counter at
  \<open>n\<close>.
\<close>

fun spec_retry_terminal :: "nat \<Rightarrow> ws_event list \<Rightarrow> bool" where
  "spec_retry_terminal n [] = (5 \<le> n)"
| "spec_retry_terminal n (ev # evs) =
     (if 5 \<le> n then True
      else case ev of
          SocketError \<Rightarrow> spec_retry_terminal (n + 1) evs
        | SocketOpened \<Rightarrow> spec_retry_terminal 0 evs
        | _ \<Rightarrow> spec_retry_terminal n evs)"

section \<open>Price-Swing Detector (dashboard, \<open>priceAlerts$\<close>)\<close>

text \<open>
  A value travelling down \<open>priceAlerts$\<close> into \<open>buffer\<close>: a ticker object or an array of
  ticker objects. Reading \<open>.symbol\<close> or \<open>.price\<close> of an array gives \<open>undefined\<close>: as a
  property key that is the string \<open>"undefined"\<close>, in arithmetic it is \<open>NaN\<close>.
\<close>

datatype stream_item = Obj ticker | Arr "ticker list"

fun item_symbol :: "stream_item \<Rightarrow> string" where
  "item_symbol (Obj t) = symbol t"
| "item_symbol (Arr ts) = ''undefined''"

fun item_price :: "stream_item \<Rightarrow> jsnum" where
  "item_price (Obj t) = price t"
| "item_price (Arr ts) = NaN"

record price_alert =
  pa_symbol :: string
  pctChange :: string
  isUp :: bool
  pa_timestamp :: int

text \<open>
  The object \<open>bySymbol\<close> built by \<open>reduce\<close>, as the list of its entries in insertion
  order, which is the order of \<open>Object.entries\<close> for keys that are not array indices;
  the keys here are stripped symbols of the allow-list or \<open>"undefined"\<close>, none of them
  an array index or a property that every object inherits. \<open>push_to\<close> is
  \<^verbatim>\<open>if (!acc[item.symbol]) acc[item.symbol] = []; acc[item.symbol].push(item);\<close>
\<close>

fun push_to :: "string \<Rightarrow> 'a \<Rightarrow> (string \<times> 'a list) list \<Rightarrow> (string \<times> 'a list) list" where
  "push_to k x [] = [(k, [x])]"
| "push_to k x ((k', xs) # rest) =
     (if k = k' then (k', xs @ [x]) # rest else (k', xs) # push_to k x rest)"

definition bySymbol :: "stream_item list \<Rightarrow> (string \<times> stream_item list) list" where
  "bySymbol buffer = foldl (\<lambda>acc item. push_to (item_symbol item) item acc) [] buffer"

text \<open>The callback mapped over \<open>Object.entries(bySymbol)\<close>; \<open>None\<close> is \<open>null\<close>.\<close>

definition check_symbol ::
  "(real \<Rightarrow> string) \<Rightarrow> int \<Rightarrow> string \<times> stream_item list \<Rightarrow> price_alert option" where
  "check_symbol numberToString now entry =
     (case entry of (symbol_key, items) \<Rightarrow>
        if length items < 2 then None
        else
          let first = item_price (items ! 0);
              last = item_price (items ! (length items - 1));
              pct = js_mul (js_div (js_sub last first) first) (Fin 100)
          in if js_ge (js_abs pct) (Fin 1)
             then Some \<lparr> pa_symbol = symbol_key, pctChange = toFixed numberToString 2 pct,
                         isUp = js_gt pct (Fin 0), pa_timestamp = now \<rparr>
             else None)"

text \<open>\<open>.filter((item) => item !== null)\<close>\<close>

fun non_null :: "'a option list \<Rightarrow> 'a list" where
  "non_null [] = []"
| "non_null (None # xs) = non_null xs"
| "non_null (Some a # xs) = a # non_null xs"

text \<open>
  The \<open>map\<close> after \<open>buffer\<close>, followed by \<open>alerts.flat()\<close>, which leaves an array of
  alert objects as it is.
\<close>

definition window_alerts ::
  "(real \<Rightarrow> string) \<Rightarrow> int \<Rightarrow> stream_item list \<Rightarrow> price_alert list" where
  "window_alerts numberToString now buffer =
     non_null (map (check_symbol numberToString now) (bySymbol buffer))"

text \<open>
  One window of \<open>priceAlerts$\<close>: \<open>window\<close> holds the Snapshots that \<open>data$\<close> delivered
  between two ticks of \<open>interval(5 * 60 * 1000)\<close>, \<open>now\<close> is the time of the closing
  tick, the result is what \<open>priceAlerts$\<close> emits at that tick (\<open>None\<close>: nothing).
  \<^item> \<open>map((data) => data.cryptos)\<close> and
    \<open>map((cryptos) => cryptos.flatMap((crypto) => ({ ...crypto })))\<close>: each Snapshot
    becomes one value, the array of copies of its records (\<open>flatMap\<close> has nothing to
    flatten, its callback returns an object).
  \<^item> \<open>buffer\<close> collects these values; \<open>filter((buffer) => buffer.length > 0)\<close>.
  \<^item> The grouping and the check, then \<open>flat()\<close>. Nothing filters the result.
\<close>

definition priceAlerts_window ::
  "(real \<Rightarrow> string) \<Rightarrow> int \<Rightarrow> snapshot list \<Rightarrow> price_alert list option" where
  "priceAlerts_window numberToString now window =
     (let buffer = map (\<lambda>data. Arr (cryptos data)) window
      in if 0 < length buffer then Some (window_alerts numberToString now buffer) else None)"

section \<open>Volume-Spike Detector (dashboard, \<open>volumeAlerts$\<close>)\<close>

record volume_alert =
  va_symbol :: string
  volumeIncrease :: string
  va_timestamp :: int

text \<open>The accumulator of \<open>scan\<close>; \<open>prev = None\<close> is the seed's \<open>prev: null\<close>.\<close>

record volume_acc =
  prev :: "ticker list option"
  alerts :: "volume_alert list"

definition volume_seed :: volume_acc where
  "volume_seed = \<lparr> prev = None, alerts = [] \<rparr>"

text \<open>The callback mapped over \<open>data.cryptos\<close>; \<open>None\<close> is \<open>null\<close>.\<close>

definition volume_check ::
  "(real \<Rightarrow> string) \<Rightarrow> int \<Rightarrow> ticker list \<Rightarrow> ticker \<Rightarrow> volume_alert option" where
  "volume_check numberToString now prevs current =
     (case find (\<lambda>p. symbol p = symbol current) prevs of
        None \<Rightarrow> None
      | Some p \<Rightarrow>
          let increase = js_div (js_sub (volume current) (volume p)) (volume p)
          in if js_gt increase (to_double 0.2)
             then Some \<lparr> va_symbol = symbol current,
                         volumeIncrease = toFixed numberToString 0 (js_mul increase (Fin 100)),
                         va_timestamp = now \<rparr>
             else None)"

text \<open>The reducer handed to \<open>scan\<close>, applied to a Snapshot that \<open>debounceTime\<close> let through.\<close>

definition volume_scan ::
  "(real \<Rightarrow> string) \<Rightarrow> int \<Rightarrow> volume_acc \<Rightarrow> snapshot \<Rightarrow> volume_acc" where
  "volume_scan numberToString now acc data =
     (case prev acc of
        None \<Rightarrow> \<lparr> prev = Some (cryptos data), alerts = [] \<rparr>
      | Some prevs \<Rightarrow>
          \<lparr> prev = Some (cryptos data),
            alerts = non_null (map (volume_check numberToString now prevs) (cryptos data)) \<rparr>)"

text \<open>\<open>filter((result) => result.alerts.length > 0)\<close>, \<open>map((result) => result.alerts)\<close>\<close>

definition volumeAlerts_emit :: "volume_acc \<Rightarrow> volume_alert list option" where
  "volumeAlerts_emit result = (if 0 < length (alerts result) then Some (alerts result) else None)"

text \<open>
  The detector over the Snapshots that pass \<open>debounceTime(10000)\<close>, each with the time
  at which it is processed: the final accumulator and what \<open>volumeAlerts$\<close> emitted.
\<close>

fun volumeAlerts_run ::
  "(real \<Rightarrow> string) \<Rightarrow> volume_acc \<Rightarrow> (int \<times> snapshot) list \<Rightarrow> volume_acc \<times> volume_alert list list" where
  "volumeAlerts_run numberToString acc [] = (acc, [])"
| "volumeAlerts_run numberToString acc ((now, data) # rest) =
     (let acc1 = volume_scan numberToString now acc data;
          (acc2, out2) = volumeAlerts_run numberToString acc1 rest
      in (acc2, (case volumeAlerts_emit acc1 of None \<Rightarrow> [] | Some batch \<Rightarrow> [batch]) @ out2))"

text \<open>
  The volume on record for a symbol: what the lookup
  \<open>acc.prev.find((p) => p.symbol === current.symbol)\<close> of the next check will find.
\<close>

definition recorded_volume :: "volume_acc \<Rightarrow> string \<Rightarrow> jsnum option" where
  "recorded_volume acc symbol_key =
     (case prev acc of
        None \<Rightarrow> None
      | Some prevs \<Rightarrow> map_option volume (find (\<lambda>p. symbol p = symbol_key) prevs))"

text \<open>
  The rolling state as the specification words it, for comparison with
  \<open>recorded_volume\<close>: a mapping from symbol to last observed volume, updated for every
  record of every processed Snapshot and otherwise kept.
\<close>

fun spec_rolling_state :: "(string \<rightharpoonup> jsnum) \<Rightarrow> snapshot list \<Rightarrow> (string \<rightharpoonup> jsnum)" where
  "spec_rolling_state m [] = m"
| "spec_rolling_state m (data # rest) =
     spec_rolling_state (foldl (\<lambda>m' t. m'(symbol t \<mapsto> volume t)) m (cryptos data)) rest"

section \<open>Alert Aggregator (dashboard, \<open>allAlerts$\<close>)\<close>

text \<open>
  The reducer handed to \<open>scan\<close>, with seed \<open>[]\<close>:
  \<^verbatim>\<open>(allAlerts, newAlerts) => [...newAlerts, ...allAlerts].slice(0, 5)\<close>
  \<open>slice(0, 5)\<close> keeps the first five elements, or all of them when there are fewer. The
  reducer never looks inside an entry, so the entry type is left open.
\<close>

definition aggregate :: "'a list \<Rightarrow> 'a list \<Rightarrow> 'a list" where
  "aggregate allAlerts newAlerts = take 5 (newAlerts @ allAlerts)"

text \<open>The retained list after a sequence of merged batches.\<close>

definition allAlerts_last :: "'a list list \<Rightarrow> 'a list" where
  "allAlerts_last batches = foldl aggregate [] batches"

section \<open>Sample inputs\<close>

text \<open>Six connection failures in a row, each followed by the end of its delay.\<close>

definition six_failures :: "(int \<times> ws_event) list" where
  "six_failures =
     [(0, SocketError), (1000, DelayElapsed), (1100, SocketError), (2100, DelayElapsed),
      (2200, SocketError), (3200, DelayElapsed), (3300, SocketError), (4300, DelayElapsed),
      (4400, SocketError), (5400, DelayElapsed), (5500, SocketError), (6500, DelayElapsed)]"

text \<open>Six connection failures, every retry but the last followed by a successful open.\<close>

definition interleaved_failures :: "(int \<times> ws_event) list" where
  "interleaved_failures =
     [(0, SocketError), (1000, DelayElapsed), (1100, SocketOpened),
      (2000, SocketError), (3000, DelayElapsed), (3100, SocketOpened),
      (4000, SocketError), (5000, DelayElapsed), (5100, SocketOpened),
      (6000, SocketError), (7000, DelayElapsed), (7100, SocketOpened),
      (8000, SocketError), (9000, DelayElapsed), (9100, SocketOpened),
      (10000, SocketError), (11000, DelayElapsed)]"


text \<open>
  A stand-in for the number-to-string conversion that \<open>toFixed\<close> falls back on from
  \<open>10^21\<close>; the sample inputs stay far below.
\<close>

definition sample_numberToString :: "real \<Rightarrow> string" where
  "sample_numberToString r = ''1e+21''"

text \<open>An upstream ticker object for BTCUSDT with the given close price and volume.\<close>

definition btc_item :: "string \<Rightarrow> string \<Rightarrow> raw_item" where
  "btc_item c v = RObj (Some ''BTCUSDT'') (Some c) (Some ''0.5'') (Some v)"

text \<open>
  Normalized records with the given price and volume, each the double that
  \<open>parseFloat\<close> gives for the decimal number.
\<close>

definition btc_ticker :: "real \<Rightarrow> real \<Rightarrow> ticker" where
  "btc_ticker p vol =
     \<lparr> symbol = ''BTC'', price = to_double p, priceChange = Fin 0, volume = to_double vol,
       volumeScore = volumeScore_of (to_double vol) \<rparr>"

definition eth_ticker :: "real \<Rightarrow> real \<Rightarrow> ticker" where
  "eth_ticker p vol =
     \<lparr> symbol = ''ETH'', price = to_double p, priceChange = Fin 0, volume = to_double vol,
       volumeScore = volumeScore_of (to_double vol) \<rparr>"

section \<open>Properties of the Alert Aggregator\<close>

lemma take_absorb: "take n (ys @ take n xs) = take n (ys @ xs)"
  by (simp add: min_def)

lemma foldl_aggregate:
  "foldl aggregate acc bs = take 5 (concat (rev bs) @ acc)" if "length acc \<le> 5"
  using that
proof (induction bs arbitrary: acc)
  case Nil
  then show ?case by simp
next
  case (Cons b bs)
  have "length (aggregate acc b) \<le> 5"
    by (simp add: aggregate_def)
  then have "foldl aggregate (aggregate acc b) bs = take 5 (concat (rev bs) @ aggregate acc b)"
    by (rule Cons.IH)
  also have "\<dots> = take 5 (concat (rev bs) @ b @ acc)"
    by (simp only: aggregate_def take_absorb)
  finally show ?case by simp
qed

text \<open>
  C6. After any sequence of merged alert batches the retained list is the first five
  entries of the batches laid out newest batch first; it never has more than five
  entries; each further batch is prepended to the retained list, which is then cut to
  five; and six single-alert batches leave the last five alerts, most recent first.
\<close>

theorem aggregator_keeps_newest_five:
  "allAlerts_last batches = take 5 (concat (rev batches))
   \<and> length (allAlerts_last batches) \<le> 5
   \<and> allAlerts_last (batches @ [newAlerts]) = take 5 (newAlerts @ allAlerts_last batches)
   \<and> allAlerts_last [[a1], [a2], [a3], [a4], [a5], [a6]] = [a6, a5, a4, a3, a2]"
proof -
  have main: "allAlerts_last bs = take 5 (concat (rev bs))" for bs :: "'a list list"
    unfolding allAlerts_last_def using foldl_aggregate [of "[]" bs] by simp
  have step: "allAlerts_last (batches @ [newAlerts]) = take 5 (newAlerts @ allAlerts_last batches)"
    by (simp add: allAlerts_last_def aggregate_def)
  have six: "allAlerts_last [[a1], [a2], [a3], [a4], [a5], [a6]] = [a6, a5, a4, a3, a2]"
    by (simp add: allAlerts_last_def aggregate_def)
  from main [of batches] step six show ?thesis by simp
qed

section \<open>Properties of the rounding\<close>

lemmas double_defs =
  to_double_def quantize_def overflow_check_def bexp.simps pow2_def round_half_even_def

text \<open>
  Sample values: whole numbers and binary fractions are doubles themselves; \<open>0.2\<close>,
  \<open>101.2\<close> and \<open>0.285\<close> are not, and go to their nearest doubles.
\<close>

lemma to_double_samples:
  "to_double 1000 = Fin 1000"
  "to_double (1 / 4) = Fin (1 / 4)"
  "to_double 0.2 = Fin (3602879701896397 / 18014398509481984)"
  "to_double 101.2 = Fin (7121316910779597 / 70368744177664)"
  "to_double 0.285 = Fin (5134103575202365 / 18014398509481984)"
  by (simp_all add: double_defs)

section \<open>Properties of the Connection Manager\<close>

lemma ws_run_append:
  "ws_run st (evs1 @ evs2) =
     (fst (ws_run (fst (ws_run st evs1)) evs2),
      snd (ws_run st evs1) @ snd (ws_run (fst (ws_run st evs1)) evs2))"
  by (induction evs1 arbitrary: st) (auto simp: split_beta)

text \<open>The sample runs, evaluated.\<close>

lemma ws_run_six_failures:
  "ws_run ws_init six_failures =
     (\<lparr> retryIndex = 6, retryPending = False, dataDone = True, heartbeatDone = False \<rparr>,
      [StartDelay 1000, StatusNext Reconnecting, Resubscribe,
       StartDelay 1000, StatusNext Reconnecting, Resubscribe,
       StartDelay 1000, StatusNext Reconnecting, Resubscribe,
       StartDelay 1000, StatusNext Reconnecting, Resubscribe,
       StartDelay 1000, StatusNext Reconnecting, Resubscribe,
       StartDelay 1000, StatusNext Error, DataNext \<lparr> cryptos = [], timestamp = 6500 \<rparr>,
       DataComplete])"
  by (simp add: six_failures_def ws_init_def catch_error_def)

lemma ws_run_interleaved_failures:
  "ws_run ws_init interleaved_failures =
     (\<lparr> retryIndex = 6, retryPending = False, dataDone = True, heartbeatDone = False \<rparr>,
      [StartDelay 1000, StatusNext Reconnecting, Resubscribe, StatusNext Connected,
       StartDelay 1000, StatusNext Reconnecting, Resubscribe, StatusNext Connected,
       StartDelay 1000, StatusNext Reconnecting, Resubscribe, StatusNext Connected,
       StartDelay 1000, StatusNext Reconnecting, Resubscribe, StatusNext Connected,
       StartDelay 1000, StatusNext Reconnecting, Resubscribe, StatusNext Connected,
       StartDelay 1000, StatusNext Error, DataNext \<lparr> cryptos = [], timestamp = 11000 \<rparr>,
       DataComplete])"
  by (simp add: interleaved_failures_def ws_init_def catch_error_def)

text \<open>
  C1 on the code. With six failures in a row the code does what the claim says: each
  failure starts a delay of 1000 ms, five retries follow, and the failure of the fifth
  retry ends in \<open>"error"\<close>. In the run \<open>interleaved_failures\<close> every retry but the last is
  followed by a successful open, so the counter of consecutive failures that the claim
  describes never passes one and its policy has not given up; the code has given up all
  the same, at the sixth failure of the session: the index of \<open>map\<close> is never set back,
  and after the first failure, retry and successful open it stands at one, not zero.
\<close>

theorem retry_counter_never_reset:
  "ws_run ws_init interleaved_failures =
     (\<lparr> retryIndex = 6, retryPending = False, dataDone = True, heartbeatDone = False \<rparr>,
      [StartDelay 1000, StatusNext Reconnecting, Resubscribe, StatusNext Connected,
       StartDelay 1000, StatusNext Reconnecting, Resubscribe, StatusNext Connected,
       StartDelay 1000, StatusNext Reconnecting, Resubscribe, StatusNext Connected,
       StartDelay 1000, StatusNext Reconnecting, Resubscribe, StatusNext Connected,
       StartDelay 1000, StatusNext Reconnecting, Resubscribe, StatusNext Connected,
       StartDelay 1000, StatusNext Error, DataNext \<lparr> cryptos = [], timestamp = 11000 \<rparr>,
       DataComplete])
   \<and> \<not> spec_retry_terminal 0 (map snd interleaved_failures)
   \<and> retryIndex (fst (ws_run ws_init (take 3 interleaved_failures))) = 1
   \<and> ws_run ws_init six_failures =
     (\<lparr> retryIndex = 6, retryPending = False, dataDone = True, heartbeatDone = False \<rparr>,
      [StartDelay 1000, StatusNext Reconnecting, Resubscribe,
       StartDelay 1000, StatusNext Reconnecting, Resubscribe,
       StartDelay 1000, StatusNext Reconnecting, Resubscribe,
       StartDelay 1000, StatusNext Reconnecting, Resubscribe,
       StartDelay 1000, StatusNext Reconnecting, Resubscribe,
       StartDelay 1000, StatusNext Error, DataNext \<lparr> cryptos = [], timestamp = 6500 \<rparr>,
       DataComplete])"
proof -
  have "\<not> spec_retry_terminal 0 (map snd interleaved_failures)"
    by (simp add: interleaved_failures_def)
  moreover have "retryIndex (fst (ws_run ws_init (take 3 interleaved_failures))) = 1"
    by (simp add: interleaved_failures_def ws_init_def)
  ultimately show ?thesis
    by (simp only: ws_run_interleaved_failures ws_run_six_failures) simp
qed

text \<open>
  C2 on the code, at an error that reaches \<open>catchError\<close>: the error is turned into an
  empty Snapshot, and with it \<open>data$\<close> completes for every subscriber. A ticker array
  that arrives afterwards is delivered to nobody. This holds for the error of the
  exhausted retries and for an exception thrown by \<open>processBinanceData\<close>.
\<close>

theorem data_stream_completes_after_caught_error:
  "ws_run ws_init (six_failures @ [(7000, SocketMessage (ArrayMsg [btc_item ''100'' ''1250'']))])
     = (\<lparr> retryIndex = 6, retryPending = False, dataDone = True, heartbeatDone = False \<rparr>,
        [StartDelay 1000, StatusNext Reconnecting, Resubscribe,
         StartDelay 1000, StatusNext Reconnecting, Resubscribe,
         StartDelay 1000, StatusNext Reconnecting, Resubscribe,
         StartDelay 1000, StatusNext Reconnecting, Resubscribe,
         StartDelay 1000, StatusNext Reconnecting, Resubscribe,
         StartDelay 1000, StatusNext Error, DataNext \<lparr> cryptos = [], timestamp = 6500 \<rparr>,
         DataComplete])
   \<and> ws_run ws_init
       [(0, SocketMessage (ArrayMsg [RNull])),
        (1000, SocketMessage (ArrayMsg [btc_item ''100'' ''1250'']))]
     = (\<lparr> retryIndex = 0, retryPending = False, dataDone = True, heartbeatDone = False \<rparr>,
        [StatusNext Error, DataNext \<lparr> cryptos = [], timestamp = 0 \<rparr>, DataComplete])
   \<and> ws_step now (st\<lparr>dataDone := True\<rparr>) (SocketMessage msg) = (st\<lparr>dataDone := True\<rparr>, [])"
proof -
  have "ws_run ws_init
          [(0, SocketMessage (ArrayMsg [RNull])),
           (1000, SocketMessage (ArrayMsg [btc_item ''100'' ''1250'']))]
        = (\<lparr> retryIndex = 0, retryPending = False, dataDone = True, heartbeatDone = False \<rparr>,
           [StatusNext Error, DataNext \<lparr> cryptos = [], timestamp = 0 \<rparr>, DataComplete])"
    by (simp add: ws_init_def catch_error_def processBinanceData_def)
  then show ?thesis
    by (simp add: ws_run_append ws_run_six_failures)
qed





text \<open>
  C10. A message that is not an array is dropped by \<open>filter(Array.isArray)\<close>: in every
  state the service publishes nothing for it (no Snapshot, no \<open>"error"\<close>, no completion)
  and its state stays as it was; a run with such a message anywhere in it ends in the
  same state with the same effects, in particular the same Snapshots in the same order,
  as the run without it.
\<close>

theorem non_array_message_is_dropped:
  "ws_step now st (SocketMessage NonArrayMsg) = (st, [])
   \<and> ws_run st (evs1 @ (now, SocketMessage NonArrayMsg) # evs2) = ws_run st (evs1 @ evs2)"
  by (simp add: ws_run_append split_beta)

section \<open>Properties of the Ticker Normalizer\<close>

lemmas parseFloat_defs =
  parseFloat_def parseFloat_field_def is_ws_def parse_unsigned_def is_digit_def
  digits_val_def digit_val_def parse_exponent_def scale10_def Let_def

text \<open>
  A literal between two doubles is read as the nearer one, a literal beyond the largest
  double as \<open>Infinity\<close>.
\<close>

lemma parseFloat_rounds:
  "parseFloat ''1.00000000000000001'' = Fin 1"
  "parseFloat ''0.108'' = Fin (7782220156096217 / 72057594037927936)"
  "parseFloat ''1e309'' = PInf"
  by (simp_all add: parseFloat_defs double_defs)

text \<open>
  C7 on the code: nothing clamps the score from below. A ticker whose volume string is
  \<open>"1"\<close> gets the score 0, since \<open>ln 1 = 0\<close>; a volume of \<open>"0"\<close> gives \<open>-Infinity\<close>; a
  negative or missing volume gives \<open>NaN\<close>.
\<close>

theorem volumeScore_not_clamped:
  "processBinanceData now [btc_item ''100'' ''1'']
     = Inr \<lparr> cryptos = [\<lparr> symbol = ''BTC'', price = Fin 100, priceChange = Fin (1 / 2),
                            volume = Fin 1, volumeScore = Fin 0 \<rparr>],
             timestamp = now \<rparr>
   \<and> map volumeScore (cryptos (projr (processBinanceData now [btc_item ''100'' ''0''])))
     = [NInf]
   \<and> map volumeScore (cryptos (projr (processBinanceData now [btc_item ''100'' ''-5''])))
     = [NaN]
   \<and> map volumeScore (cryptos (projr (processBinanceData now
        [RObj (Some ''BTCUSDT'') (Some ''100'') (Some ''0.5'') None])))
     = [NaN]"
  by (simp add: btc_item_def processBinanceData_def allowed_def tickers_def to_ticker_def
      volumeScore_of_def js_min_def parseFloat_defs double_defs)

section \<open>Properties of the Price-Swing Detector\<close>

text \<open>
  What reaches \<open>buffer\<close> are arrays, one per Snapshot. They all land under the key
  \<open>"undefined"\<close>, their \<open>.price\<close> is \<open>undefined\<close>, the percentage is \<open>NaN\<close>, and no
  comparison with \<open>NaN\<close> holds.
\<close>

lemma foldl_push_Arr:
  "foldl (\<lambda>acc item. push_to (item_symbol item) item acc) [(''undefined'', xs)] (map Arr ys)
     = [(''undefined'', xs @ map Arr ys)]"
  by (induction ys arbitrary: xs) simp_all

lemma bySymbol_Arr:
  "bySymbol (map Arr ys) = (if ys = [] then [] else [(''undefined'', map Arr ys)])"
proof (cases ys)
  case Nil
  then show ?thesis by (simp add: bySymbol_def)
next
  case (Cons y ys')
  then show ?thesis
    using foldl_push_Arr [of "[Arr y]" ys'] by (simp add: bySymbol_def)
qed

lemma check_symbol_Arr: "check_symbol ts now (k, map Arr ys) = None"
  by (cases ys) (simp_all add: check_symbol_def js_ge_def)

lemma window_alerts_Arr: "window_alerts ts now (map Arr ys) = []"
  by (simp add: window_alerts_def bySymbol_Arr check_symbol_Arr)

lemma priceAlerts_window_eq:
  "priceAlerts_window ts now window = (if window = [] then None else Some [])"
proof -
  have "map (\<lambda>data. Arr (cryptos data)) window = map Arr (map cryptos window)"
    by simp
  then show ?thesis
    unfolding priceAlerts_window_def Let_def by (simp only: window_alerts_Arr) simp
qed

lemmas window_alerts_defs =
  window_alerts_def bySymbol_def check_symbol_def js_ge_def js_gt_def btc_ticker_def
  eth_ticker_def toFixed_def digits.simps Let_def

text \<open>
  The check in double arithmetic, on records handed to it one by one: from 1.1 to
  1.111 the percentage comes out just below 1 and there is no alert; from 100 to
  101.005 it comes out just below 1.005 and is printed as \<open>"1.00"\<close>.
\<close>

lemma window_alerts_rounding:
  "window_alerts ts 300000 [Obj (btc_ticker 1.1 v), Obj (btc_ticker 1.111 v)] = []"
  "window_alerts ts 300000 [Obj (btc_ticker 100 v), Obj (btc_ticker 101.005 v)]
     = [\<lparr> pa_symbol = ''BTC'', pctChange = ''1.00'', isUp = True, pa_timestamp = 300000 \<rparr>]"
  by (simp_all add: window_alerts_defs double_defs)

text \<open>
  C3 on the code. A window of three Snapshots with BTC at 100, 100.5 and 101.2 closes
  with an empty batch: no alert for BTC. The check itself is as the claim describes it:
  handed the three records one by one, as the comment on the \<open>flatMap\<close> line intends,
  it gives the alert with \<open>pctChange\<close> \<open>"1.20"\<close> and \<open>isUp\<close>; it gives none for 100
  followed by 100.9, and none for a single observation.
\<close>

theorem price_swing_never_sees_records:
  "priceAlerts_window ts 300000
     [\<lparr> cryptos = [btc_ticker 100 v], timestamp = 1000 \<rparr>,
      \<lparr> cryptos = [btc_ticker 100.5 v], timestamp = 2000 \<rparr>,
      \<lparr> cryptos = [btc_ticker 101.2 v], timestamp = 3000 \<rparr>] = Some []
   \<and> window_alerts ts 300000
       [Obj (btc_ticker 100 v), Obj (btc_ticker 100.5 v), Obj (btc_ticker 101.2 v)]
     = [\<lparr> pa_symbol = ''BTC'', pctChange = ''1.20'', isUp = True, pa_timestamp = 300000 \<rparr>]
   \<and> window_alerts ts 300000 [Obj (btc_ticker 100 v), Obj (btc_ticker 100.9 v)] = []
   \<and> window_alerts ts 300000 [Obj (btc_ticker 100 v), Obj (eth_ticker 10 v)] = []"
proof -
  have "window_alerts ts 300000
          [Obj (btc_ticker 100 v), Obj (btc_ticker 100.5 v), Obj (btc_ticker 101.2 v)]
        = [\<lparr> pa_symbol = ''BTC'', pctChange = ''1.20'', isUp = True, pa_timestamp = 300000 \<rparr>]"
    by (simp add: window_alerts_defs double_defs)
  moreover have "window_alerts ts 300000 [Obj (btc_ticker 100 v), Obj (btc_ticker 100.9 v)] = []"
    by (simp add: window_alerts_defs double_defs)
  moreover have "window_alerts ts 300000 [Obj (btc_ticker 100 v), Obj (eth_ticker 10 v)] = []"
    by (simp add: window_alerts_defs)
  ultimately show ?thesis
    by (simp add: priceAlerts_window_eq)
qed

text \<open>
  C9 on the code: whenever a window closes with at least one Snapshot in it,
  \<open>priceAlerts$\<close> emits, and what it emits is the empty batch; only a window without any
  Snapshot emits nothing. So a window whose only observation is one BTC record emits
  \<open>[]\<close>.
\<close>

theorem price_swing_emits_empty_batch:
  "priceAlerts_window ts now window = (if window = [] then None else Some [])
   \<and> priceAlerts_window ts 300000 [\<lparr> cryptos = [btc_ticker 100 v], timestamp = 1000 \<rparr>]
     = Some []"
  by (simp add: priceAlerts_window_eq)

section \<open>Properties of the Volume-Spike Detector\<close>

lemma prev_volume_scan: "prev (volume_scan ts now acc data) = Some (cryptos data)"
  by (simp add: volume_scan_def split: option.splits)

lemma recorded_volume_scan:
  "recorded_volume (volume_scan ts now acc data) s
     = map_option volume (find (\<lambda>p. symbol p = s) (cryptos data))"
  by (simp add: recorded_volume_def prev_volume_scan)

lemma non_null_concat:
  "non_null (map f xs) = concat (map (\<lambda>x. case f x of None \<Rightarrow> [] | Some a \<Rightarrow> [a]) xs)"
  by (induction xs) (simp_all split: option.splits)

text \<open>One check, record by record, in terms of the volume on record.\<close>

lemma alerts_volume_scan:
  "alerts (volume_scan ts now acc data)
     = concat (map (\<lambda>current.
         case recorded_volume acc (symbol current) of
           None \<Rightarrow> []
         | Some previous \<Rightarrow>
             if js_gt (js_div (js_sub (volume current) previous) previous) (to_double 0.2)
             then [\<lparr> va_symbol = symbol current,
                     volumeIncrease =
                       toFixed ts 0
                         (js_mul (js_div (js_sub (volume current) previous) previous) (Fin 100)),
                     va_timestamp = now \<rparr>]
             else [])
         (cryptos data))"
proof (cases "prev acc")
  case None
  then show ?thesis
    by (simp add: volume_scan_def recorded_volume_def)
next
  case (Some prevs)
  have "(case volume_check ts now prevs current of None \<Rightarrow> [] | Some a \<Rightarrow> [a])
          = (case recorded_volume acc (symbol current) of
               None \<Rightarrow> []
             | Some previous \<Rightarrow>
                 if js_gt (js_div (js_sub (volume current) previous) previous) (to_double 0.2)
                 then [\<lparr> va_symbol = symbol current,
                         volumeIncrease =
                           toFixed ts 0
                             (js_mul (js_div (js_sub (volume current) previous) previous)
                                (Fin 100)),
                         va_timestamp = now \<rparr>]
                 else [])" for current
    using Some by (simp add: volume_check_def recorded_volume_def Let_def split: option.splits)
  with Some show ?thesis
    by (simp add: volume_scan_def non_null_concat)
qed

text \<open>Every processed Snapshot is checked against the state its predecessors left.\<close>

lemma volumeAlerts_run_append:
  "volumeAlerts_run ts acc (xs @ ys) =
     (fst (volumeAlerts_run ts (fst (volumeAlerts_run ts acc xs)) ys),
      snd (volumeAlerts_run ts acc xs)
        @ snd (volumeAlerts_run ts (fst (volumeAlerts_run ts acc xs)) ys))"
  by (induction xs arbitrary: acc) (auto simp: split_beta Let_def)

lemma volumeAlerts_run_snoc:
  "volumeAlerts_run ts acc (checks @ [(now, data)]) =
     (volume_scan ts now (fst (volumeAlerts_run ts acc checks)) data,
      snd (volumeAlerts_run ts acc checks)
        @ (if alerts (volume_scan ts now (fst (volumeAlerts_run ts acc checks)) data) = []
           then []
           else [alerts (volume_scan ts now (fst (volumeAlerts_run ts acc checks)) data)]))"
  by (simp add: volumeAlerts_run_append volumeAlerts_emit_def Let_def)

lemma toFixed_0:
  "toFixed ts 0 (Fin r)
     = (if 10 ^ 21 \<le> \<bar>r\<bar> then ts r
        else (if r < 0 then ''-'' else '''') @ digits (nat \<lfloor>\<bar>r\<bar> + 1 / 2\<rfloor>))"
  by (simp add: toFixed_def Let_def)

lemma nearest_integer: "\<bar>real (nat \<lfloor>\<bar>r\<bar> + 1 / 2\<rfloor>) - \<bar>r\<bar>\<bar> \<le> 1 / 2"
proof -
  have "0 \<le> \<lfloor>\<bar>r\<bar> + 1 / 2\<rfloor>"
    by simp
  then have "real (nat \<lfloor>\<bar>r\<bar> + 1 / 2\<rfloor>) = of_int \<lfloor>\<bar>r\<bar> + 1 / 2\<rfloor>"
    by simp
  moreover have "of_int \<lfloor>\<bar>r\<bar> + 1 / 2\<rfloor> \<le> \<bar>r\<bar> + 1 / 2"
    by (rule of_int_floor_le)
  moreover have "\<bar>r\<bar> + 1 / 2 < of_int \<lfloor>\<bar>r\<bar> + 1 / 2\<rfloor> + 1"
    by (rule floor_less_cancel) simp
  ultimately show ?thesis
    by linarith
qed

lemmas volume_defs =
  volume_seed_def volume_scan_def volumeAlerts_emit_def volume_check_def js_gt_def
  btc_ticker_def eth_ticker_def recorded_volume_def toFixed_def digits.simps Let_def

text \<open>Sample runs: one symbol; two symbols over three checks; increases that need rounding.\<close>

lemma volume_run_1250:
  "snd (volumeAlerts_run ts volume_seed
     [(10000, \<lparr> cryptos = [btc_ticker 100 1000], timestamp = 0 \<rparr>),
      (30000, \<lparr> cryptos = [btc_ticker 100 1250], timestamp = 20000 \<rparr>)])
   = [[\<lparr> va_symbol = ''BTC'', volumeIncrease = ''25'', va_timestamp = 30000 \<rparr>]]"
  by (simp add: volume_defs double_defs)

lemma volume_run_1150:
  "snd (volumeAlerts_run ts volume_seed
     [(10000, \<lparr> cryptos = [btc_ticker 100 1000], timestamp = 0 \<rparr>),
      (30000, \<lparr> cryptos = [btc_ticker 100 1150], timestamp = 20000 \<rparr>)])
   = []"
  by (simp add: volume_defs double_defs)

lemma volume_run_two_symbols:
  "snd (volumeAlerts_run ts volume_seed
     [(10000, \<lparr> cryptos = [btc_ticker 100 1000, eth_ticker 10 500], timestamp = 0 \<rparr>),
      (30000, \<lparr> cryptos = [btc_ticker 100 1250, eth_ticker 10 700], timestamp = 20000 \<rparr>),
      (50000, \<lparr> cryptos = [btc_ticker 100 1250, eth_ticker 10 900], timestamp = 40000 \<rparr>)])
   = [[\<lparr> va_symbol = ''BTC'', volumeIncrease = ''25'', va_timestamp = 30000 \<rparr>,
       \<lparr> va_symbol = ''ETH'', volumeIncrease = ''40'', va_timestamp = 30000 \<rparr>],
      [\<lparr> va_symbol = ''ETH'', volumeIncrease = ''29'', va_timestamp = 50000 \<rparr>]]"
  by (simp add: volume_defs double_defs)

lemma volume_run_rounding:
  "snd (volumeAlerts_run ts volume_seed
     [(10000, \<lparr> cryptos = [btc_ticker 100 0.09, eth_ticker 10 1000], timestamp = 0 \<rparr>),
      (30000, \<lparr> cryptos = [btc_ticker 100 0.108, eth_ticker 10 1285], timestamp = 20000 \<rparr>)])
   = [[\<lparr> va_symbol = ''BTC'', volumeIncrease = ''20'', va_timestamp = 30000 \<rparr>,
       \<lparr> va_symbol = ''ETH'', volumeIncrease = ''28'', va_timestamp = 30000 \<rparr>]]"
  by (simp add: volume_defs double_defs)

text \<open>
  C4, as the code has it. In a check, the alerts are made record by record of the
  latest Snapshot, in order: a record whose symbol has no volume on record gives none
  (so the first check gives none at all); a record whose symbol has one gives an alert
  exactly when \<open>(current - previous) / previous > 0.2\<close> holds in double arithmetic, and
  the alert carries that increase times 100 as printed by \<open>toFixed(0)\<close>, which below
  \<open>10^21\<close> is the nearest whole number. The alerts of a check are emitted as one batch
  when there is at least one. Every processed Snapshot is checked against the state
  that the Snapshots before it have left, and the batches come out in that order. From
  1000 to 1250 the alert says \<open>"25"\<close>; from 1000 to 1150 there is none.
\<close>

theorem volume_spike_rule:
  "alerts (volume_scan ts now acc data)
     = concat (map (\<lambda>current.
         case recorded_volume acc (symbol current) of
           None \<Rightarrow> []
         | Some previous \<Rightarrow>
             if js_gt (js_div (js_sub (volume current) previous) previous) (to_double 0.2)
             then [\<lparr> va_symbol = symbol current,
                     volumeIncrease =
                       toFixed ts 0
                         (js_mul (js_div (js_sub (volume current) previous) previous) (Fin 100)),
                     va_timestamp = now \<rparr>]
             else [])
         (cryptos data))
   \<and> recorded_volume volume_seed s = None
   \<and> volumeAlerts_emit result = (if alerts result = [] then None else Some (alerts result))
   \<and> volumeAlerts_run ts acc [] = (acc, [])
   \<and> volumeAlerts_run ts acc (checks @ [(now, data)]) =
       (volume_scan ts now (fst (volumeAlerts_run ts acc checks)) data,
        snd (volumeAlerts_run ts acc checks)
          @ (if alerts (volume_scan ts now (fst (volumeAlerts_run ts acc checks)) data) = []
             then []
             else [alerts (volume_scan ts now (fst (volumeAlerts_run ts acc checks)) data)]))
   \<and> toFixed ts 0 (Fin r)
       = (if 10 ^ 21 \<le> \<bar>r\<bar> then ts r
          else (if r < 0 then ''-'' else '''') @ digits (nat \<lfloor>\<bar>r\<bar> + 1 / 2\<rfloor>))
   \<and> \<bar>real (nat \<lfloor>\<bar>r\<bar> + 1 / 2\<rfloor>) - \<bar>r\<bar>\<bar> \<le> 1 / 2
   \<and> snd (volumeAlerts_run ts volume_seed
        [(10000, \<lparr> cryptos = [btc_ticker 100 1000], timestamp = 0 \<rparr>),
         (30000, \<lparr> cryptos = [btc_ticker 100 1250], timestamp = 20000 \<rparr>)])
       = [[\<lparr> va_symbol = ''BTC'', volumeIncrease = ''25'', va_timestamp = 30000 \<rparr>]]
   \<and> snd (volumeAlerts_run ts volume_seed
        [(10000, \<lparr> cryptos = [btc_ticker 100 1000], timestamp = 0 \<rparr>),
         (30000, \<lparr> cryptos = [btc_ticker 100 1150], timestamp = 20000 \<rparr>)])
       = []
   \<and> snd (volumeAlerts_run ts volume_seed
        [(10000, \<lparr> cryptos = [btc_ticker 100 1000, eth_ticker 10 500], timestamp = 0 \<rparr>),
         (30000, \<lparr> cryptos = [btc_ticker 100 1250, eth_ticker 10 700], timestamp = 20000 \<rparr>),
         (50000, \<lparr> cryptos = [btc_ticker 100 1250, eth_ticker 10 900], timestamp = 40000 \<rparr>)])
       = [[\<lparr> va_symbol = ''BTC'', volumeIncrease = ''25'', va_timestamp = 30000 \<rparr>,
           \<lparr> va_symbol = ''ETH'', volumeIncrease = ''40'', va_timestamp = 30000 \<rparr>],
          [\<lparr> va_symbol = ''ETH'', volumeIncrease = ''29'', va_timestamp = 50000 \<rparr>]]
   \<and> snd (volumeAlerts_run ts volume_seed
        [(10000, \<lparr> cryptos = [btc_ticker 100 0.09, eth_ticker 10 1000], timestamp = 0 \<rparr>),
         (30000, \<lparr> cryptos = [btc_ticker 100 0.108, eth_ticker 10 1285], timestamp = 20000 \<rparr>)])
       = [[\<lparr> va_symbol = ''BTC'', volumeIncrease = ''20'', va_timestamp = 30000 \<rparr>,
           \<lparr> va_symbol = ''ETH'', volumeIncrease = ''28'', va_timestamp = 30000 \<rparr>]]"
proof -
  have seed: "recorded_volume volume_seed s = None"
    by (simp add: recorded_volume_def volume_seed_def)
  have emit: "volumeAlerts_emit result
                = (if alerts result = [] then None else Some (alerts result))"
    by (simp add: volumeAlerts_emit_def)
  have nil: "volumeAlerts_run ts acc [] = (acc, [])"
    by simp
  note alerts_volume_scan [of ts now acc data] seed emit nil
    volumeAlerts_run_snoc [of ts acc checks now data] toFixed_0 [of ts r] nearest_integer [of r]
    volume_run_1250 [of ts] volume_run_1150 [of ts] volume_run_two_symbols [of ts]
    volume_run_rounding [of ts]
  then show ?thesis
    by (intro conjI)
qed

text \<open>
  C4 as stated fails on the code. ETH is processed with volume 2000, so the rolling
  state that the specification describes holds a previous volume for it from then on;
  the next processed Snapshot has BTC only; then ETH comes with volume 3000, half as
  much again, which is more than 20 percent. The code emits nothing in the whole run.
\<close>

theorem volume_spike_missed_counterexample:
  "spec_rolling_state Map.empty
     [\<lparr> cryptos = [eth_ticker 10 2000], timestamp = 0 \<rparr>,
      \<lparr> cryptos = [btc_ticker 100 7], timestamp = 20000 \<rparr>] ''ETH''
     = Some (Fin 2000)
   \<and> js_gt (js_div (js_sub (Fin 3000) (Fin 2000)) (Fin 2000)) (to_double 0.2)
   \<and> volume (eth_ticker 10 3000) = Fin 3000
   \<and> snd (volumeAlerts_run sample_numberToString volume_seed
        [(10000, \<lparr> cryptos = [eth_ticker 10 2000], timestamp = 0 \<rparr>),
         (30000, \<lparr> cryptos = [btc_ticker 100 7], timestamp = 20000 \<rparr>),
         (50000, \<lparr> cryptos = [eth_ticker 10 3000], timestamp = 40000 \<rparr>)])
     = []"
  by (simp add: volume_defs double_defs)

text \<open>
  C5, as the code has it. Whatever the accumulator held and whether or not anything is
  emitted, after a Snapshot has been processed the state is the list of that Snapshot's
  records: the volume on record for a symbol is the volume of that Snapshot's first
  record with the symbol, every symbol of that Snapshot has one, and a symbol that the
  Snapshot does not contain has none.
\<close>

theorem volume_state_is_last_snapshot:
  "prev (volume_scan ts now acc data) = Some (cryptos data)
   \<and> recorded_volume (volume_scan ts now acc data) s
       = map_option volume (find (\<lambda>p. symbol p = s) (cryptos data))
   \<and> (p \<in> set (cryptos data) \<longrightarrow>
        recorded_volume (volume_scan ts now acc data) (symbol p) \<noteq> None)
   \<and> (s \<notin> symbol ` set (cryptos data) \<longrightarrow>
        recorded_volume (volume_scan ts now acc data) s = None)"
proof -
  have "recorded_volume (volume_scan ts now acc data) (symbol p) \<noteq> None"
    if "p \<in> set (cryptos data)"
    using that by (auto simp: recorded_volume_scan find_None_iff)
  moreover have "recorded_volume (volume_scan ts now acc data) s = None"
    if "s \<notin> symbol ` set (cryptos data)"
    using that by (auto simp: recorded_volume_scan find_None_iff)
  ultimately show ?thesis
    by (simp only: prev_volume_scan recorded_volume_scan) blast
qed

theorem volume_state_is_last_snapshot_witness:
  "eth_ticker 10 5 \<in> set (cryptos \<lparr> cryptos = [eth_ticker 10 5], timestamp = 20000 \<rparr>)
   \<and> ''BTC'' \<notin> symbol ` set (cryptos \<lparr> cryptos = [eth_ticker 10 5], timestamp = 20000 \<rparr>)
   \<and> recorded_volume
        (volume_scan sample_numberToString 30000
           \<lparr> prev = Some [btc_ticker 100 1000], alerts = [] \<rparr>
           \<lparr> cryptos = [eth_ticker 10 5], timestamp = 20000 \<rparr>) ''ETH'' = Some (Fin 5)
   \<and> recorded_volume
        (volume_scan sample_numberToString 30000
           \<lparr> prev = Some [btc_ticker 100 1000], alerts = [] \<rparr>
           \<lparr> cryptos = [eth_ticker 10 5], timestamp = 20000 \<rparr>) ''BTC'' = None"
  using volume_state_is_last_snapshot
    [where ts = sample_numberToString and now = 30000
       and acc = "\<lparr> prev = Some [btc_ticker 100 1000], alerts = [] \<rparr>"
       and data = "\<lparr> cryptos = [eth_ticker 10 5], timestamp = 20000 \<rparr>"
       and s = "''BTC''" and p = "eth_ticker 10 5"]
  by (simp add: volume_defs double_defs)

text \<open>
  C5 as stated fails on the code. BTC is recorded with volume 1000; the next processed
  Snapshot holds ETH only, and with it the record of BTC is gone; when BTC comes back
  with volume 1250, a quarter above the last volume seen for it, nothing is emitted.
\<close>

theorem volume_record_lost_counterexample:
  "recorded_volume (fst (volumeAlerts_run sample_numberToString volume_seed
      [(10000, \<lparr> cryptos = [btc_ticker 100 1000], timestamp = 0 \<rparr>)])) ''BTC''
     = Some (Fin 1000)
   \<and> recorded_volume (fst (volumeAlerts_run sample_numberToString volume_seed
      [(10000, \<lparr> cryptos = [btc_ticker 100 1000], timestamp = 0 \<rparr>),
       (30000, \<lparr> cryptos = [eth_ticker 10 5], timestamp = 20000 \<rparr>)])) ''BTC''
     = None
   \<and> snd (volumeAlerts_run sample_numberToString volume_seed
      [(10000, \<lparr> cryptos = [btc_ticker 100 1000], timestamp = 0 \<rparr>),
       (30000, \<lparr> cryptos = [eth_ticker 10 5], timestamp = 20000 \<rparr>),
       (50000, \<lparr> cryptos = [btc_ticker 100 1250], timestamp = 40000 \<rparr>)])
     = []"
  by (simp add: volume_defs double_defs)

end
